theory Spec2Isabelle
  imports Main
begin

section \<open>JavaScript strings and the string methods that index.js calls\<close>

text \<open>
  A JavaScript string is a finite sequence of code units; it is modelled as a
  \<^typ>\<open>string\<close>. Every marker the program looks for (\<open>data:\<close>, the comma, the slash) is
  a single code unit per character, so the list operations below are the methods of
  \<open>String.prototype\<close> restricted to the way index.js calls them. A value that may be
  \<open>undefined\<close> is an \<^typ>\<open>'a option\<close>, with \<open>None\<close> for \<open>undefined\<close>.
\<close>

definition startsWith :: "string \<Rightarrow> string \<Rightarrow> bool" where
  "startsWith s p = (take (length p) s = p)"

definition endsWith :: "string \<Rightarrow> string \<Rightarrow> bool" where
  "endsWith s p = (length p \<le> length s \<and> drop (length s - length p) s = p)"

text \<open>\<open>s.slice(b, e)\<close>: a negative index counts from the end, both are clamped.\<close>

definition slice_index :: "nat \<Rightarrow> int \<Rightarrow> nat" where
  "slice_index len i = (if i < 0 then nat (max (int len + i) 0) else min (nat i) len)"

definition slice :: "string \<Rightarrow> int \<Rightarrow> int \<Rightarrow> string" where
  "slice s b e =
     (let from = slice_index (length s) b; to = slice_index (length s) e
      in take (to - from) (drop from s))"

text \<open>\<open>s.split(c)\<close> for a one-character separator: never empty, \<open>"".split(",")\<close> is \<open>[""]\<close>.\<close>

fun split :: "string \<Rightarrow> char \<Rightarrow> string list" where
  "split [] c = [[]]"
| "split (x # xs) c =
     (if x = c then [] # split xs c
      else (case split xs c of [] \<Rightarrow> [[x]] | y # ys \<Rightarrow> (x # y) # ys))"

text \<open>\<open>a[i]\<close> on an array: \<open>undefined\<close> out of range.\<close>

definition at_index :: "'a list \<Rightarrow> nat \<Rightarrow> 'a option" where
  "at_index xs i = (if i < length xs then Some (xs ! i) else None)"

text \<open>\<open>a.join(sep)\<close> on an array of strings.\<close>

fun join :: "string list \<Rightarrow> string \<Rightarrow> string" where
  "join [] sep = []"
| "join [x] sep = x"
| "join (x # y # ys) sep = x @ sep @ join (y # ys) sep"

text \<open>Truthiness of a possibly absent string: \<open>undefined\<close> and \<open>""\<close> are falsy.\<close>

definition truthy_str :: "string option \<Rightarrow> bool" where
  "truthy_str v = (case v of None \<Rightarrow> False | Some s \<Rightarrow> s \<noteq> [])"

section \<open>Helpers\<close>

text \<open>
  \<^verbatim>\<open>
  function trimSlash(folder) {
    if (!folder) return "/";
    return folder.endsWith("/") ? folder.slice(0, -1) : folder;
  }
  \<close>
\<close>

definition trimSlash :: "string option \<Rightarrow> string" where
  "trimSlash folder =
     (if \<not> truthy_str folder then ''/''
      else (case folder of
              None \<Rightarrow> ''/''
            | Some f \<Rightarrow> if endsWith f ''/'' then slice f 0 (- 1) else f))"

text \<open>
  Template literals: \<open>`${v}`\<close> renders an absent string as \<open>undefined\<close>, and a number in
  decimal. The numbers the program renders are byte counts, pixel dimensions, array
  lengths and a number of seconds; they are modelled as integers. For an integer below
  \<open>2^53\<close> JavaScript's number-to-string conversion is the decimal numeral, which is what
  \<open>decimal\<close> computes. Above that it prints the shortest digits that identify the double,
  padded with zeros (\<open>2^60\<close> is printed as \<open>1152921504606847000\<close>), and from \<open>10^21\<close> on it
  uses exponent notation; \<open>decimal\<close> does not model either, and a statement about a
  rendered number carries the bound.
\<close>

definition tmpl :: "string option \<Rightarrow> string" where
  "tmpl v = (case v of None \<Rightarrow> ''undefined'' | Some s \<Rightarrow> s)"

definition digit_char :: "nat \<Rightarrow> char" where
  "digit_char d = ''0123456789'' ! d"

fun decimal :: "nat \<Rightarrow> string" where
  "decimal n = (if n < 10 then [digit_char n] else decimal (n div 10) @ [digit_char (n mod 10)])"

declare decimal.simps [simp del]

definition number_str :: "int \<Rightarrow> string" where
  "number_str i = (if i < 0 then ''-'' @ decimal (nat (- i)) else decimal (nat i))"

text \<open>
  \<open>(size / 1024).toFixed(1)\<close> for a byte count \<open>size\<close>: the quotient is exact in a double,
  and \<open>toFixed(1)\<close> picks the integer \<open>q\<close> with \<open>q / 10\<close> nearest to it, the larger one on a
  tie; that is \<open>floor (size * 10 / 1024 + 1 / 2)\<close>. An absent size divides to \<open>NaN\<close>.
  This is \<open>toFixed\<close> for a quotient below \<open>10^21\<close>, that is for \<open>size < 1024 * 10^21\<close>; from
  there on \<open>toFixed\<close> answers in exponent notation (\<open>1e+21\<close>), which \<open>kb_toFixed1\<close> does not
  model, and a statement about a rendered size carries the bound.
\<close>

definition kb_toFixed1 :: "nat \<Rightarrow> string" where
  "kb_toFixed1 n =
     (let q = (n * 20 + 1024) div 2048 in decimal (q div 10) @ ''.'' @ decimal (q mod 10))"

definition kb_toFixed1_opt :: "nat option \<Rightarrow> string" where
  "kb_toFixed1_opt v = (case v of None \<Rightarrow> ''NaN'' | Some n \<Rightarrow> kb_toFixed1 n)"

definition truthy_num :: "nat option \<Rightarrow> bool" where
  "truthy_num v = (case v of None \<Rightarrow> False | Some n \<Rightarrow> n \<noteq> 0)"

definition NL :: string where
  "NL = [CHR 0x0A]"

definition DQ :: string where
  "DQ = [CHR 0x22]"

subsection \<open>The response envelope\<close>

text \<open>
  \<^verbatim>\<open>
  function formatResult(text) { return { content: [{ type: "text", text }] }; }
  function formatError(message) {
    return { content: [{ type: "text", text: message }], isError: true };
  }
  \<close>
  \<open>formatResult\<close> sets no \<open>isError\<close> field at all.
\<close>

record content_item =
  ctype :: string
  ctext :: string

record tool_result =
  content :: "content_item list"
  isError :: "bool option"

definition formatResult :: "string \<Rightarrow> tool_result" where
  "formatResult t = \<lparr>content = [\<lparr>ctype = ''text'', ctext = t\<rparr>], isError = None\<rparr>"

definition formatError :: "string \<Rightarrow> tool_result" where
  "formatError message = \<lparr>content = [\<lparr>ctype = ''text'', ctext = message\<rparr>], isError = Some True\<rparr>"

subsection \<open>Objects returned by the backend\<close>

text \<open>
  A file or folder object as the backend returns it; the fields are the ones index.js
  reads. An absent field is \<open>None\<close>.
\<close>

record ik_object =
  itype :: "string option"
  name :: "string option"
  fileId :: "string option"
  folderId :: "string option"
  folderPath :: "string option"
  filePath :: "string option"
  fileType :: "string option"
  fsize :: "nat option"
  width :: "nat option"
  height :: "nat option"
  tags :: "string list option"
  url :: "string option"

text \<open>
  \<^verbatim>\<open>
  function formatFileInfo(file) {
    const size = file.size ? `${(file.size / 1024).toFixed(1)} KB` : "N/A";
    const dims = file.width && file.height ? `${file.width}x${file.height}` : "";
    const tags =
      file.tags && file.tags.length > 0 ? `\n   Tags: ${file.tags.join(", ")}` : "";
    return `${file.name} (${file.fileType || "file"}, ${size}${dims ? ", " + dims : ""})${tags}\n   ID: ${file.fileId}\n   URL: ${file.url}`;
  }
  \<close>
\<close>

definition formatFileInfo :: "ik_object \<Rightarrow> string" where
  "formatFileInfo file =
     (let size = (if truthy_num (fsize file)
                  then (case fsize file of None \<Rightarrow> ''N/A'' | Some n \<Rightarrow> kb_toFixed1 n @ '' KB'')
                  else ''N/A'');
          dims = (if truthy_num (width file) \<and> truthy_num (height file)
                  then (case (width file, height file) of
                          (Some w, Some h) \<Rightarrow> decimal w @ ''x'' @ decimal h
                        | _ \<Rightarrow> [])
                  else []);
          tags = (case tags file of
                    None \<Rightarrow> []
                  | Some ts \<Rightarrow> if length ts > 0 then NL @ ''   Tags: '' @ join ts '', '' else [])
      in tmpl (name file) @ '' ('' @
         (if truthy_str (fileType file) then tmpl (fileType file) else ''file'') @ '', '' @
         size @ (if dims \<noteq> [] then '', '' @ dims else []) @ '')'' @ tags @
         NL @ ''   ID: '' @ tmpl (fileId file) @ NL @ ''   URL: '' @ tmpl (url file))"

text \<open>
  The files whose numbers are in the range where \<open>kb_toFixed1\<close> and \<open>decimal\<close> are what
  JavaScript prints: a size, when present, below \<open>1024 * 10^21\<close> bytes, and a width and a
  height, when present, below \<open>2^53\<close>.
\<close>

definition numbers_in_range :: "ik_object \<Rightarrow> bool" where
  "numbers_in_range file =
     ((case fsize file of None \<Rightarrow> True | Some n \<Rightarrow> n < 1024 * 10 ^ 21) \<and>
      (case width file of None \<Rightarrow> True | Some w \<Rightarrow> w < 2 ^ 53) \<and>
      (case height file of None \<Rightarrow> True | Some h \<Rightarrow> h < 2 ^ 53))"

section \<open>The ImageKit client: lazy initialisation, fail-fast on missing credentials\<close>

text \<open>
  \<^verbatim>\<open>
  let client = null;
  function getClient() {
    if (client) return client;
    const publicKey = process.env.IMAGEKIT_PUBLIC_KEY;
    const privateKey = process.env.IMAGEKIT_PRIVATE_KEY;
    const urlEndpoint = process.env.IMAGEKIT_URL_ENDPOINT;
    if (!publicKey || !privateKey || !urlEndpoint) {
      throw new Error("Missing credentials. Set ...");
    }
    client = new ImageKit({ publicKey, privateKey, urlEndpoint });
    return client;
  }
  \<close>
  The module variable \<open>client\<close> is a field of the server's state. An object built by
  \<open>new ImageKit\<close> carries an identity \<open>oid\<close>, the number of clients built before it,
  so that two constructions never give the same object. A thrown \<open>Error\<close> is the left
  summand of the result.
\<close>

datatype js_error = Error string

record process_env =
  IMAGEKIT_PUBLIC_KEY :: "string option"
  IMAGEKIT_PRIVATE_KEY :: "string option"
  IMAGEKIT_URL_ENDPOINT :: "string option"

record ImageKit =
  publicKey :: string
  privateKey :: string
  urlEndpoint :: string
  oid :: nat

text \<open>The requests index.js sends to the backend through the client.\<close>

datatype jsval = JStr string | JNum int | JBool bool

type_synonym js_record = "(string \<times> jsval) list"

record uploadOptions =
  up_file :: "string option"
  up_fileName :: string
  up_folder :: string
  up_useUniqueFileName :: bool
  up_isPrivateFile :: bool
  up_overwriteFile :: bool
  up_tags :: "string list option"
  up_customCoordinates :: "string option"
  up_customMetadata :: "js_record option"

record listFiles_params =
  lf_path :: string
  lf_includeFolder :: bool
  lf_type :: "string option"

datatype position = Path | Query

record url_options =
  transformation_position :: position
  uo_path :: "string option"
  uo_src :: "string option"
  uo_transformation :: "js_record list option"
  uo_signed :: "bool option"
  uo_expire_seconds :: "int option"

datatype backend_call =
    Call_upload uploadOptions
  | Call_listFiles listFiles_params
  | Call_url url_options

text \<open>
  The state of the server process: the cached client, the number of clients constructed
  so far, and the backend calls made so far, oldest first.
\<close>

record server_state =
  client :: "ImageKit option"
  constructed :: nat
  calls :: "backend_call list"

definition missing_credentials :: js_error where
  "missing_credentials = Error
     ''Missing credentials. Set IMAGEKIT_PUBLIC_KEY, IMAGEKIT_PRIVATE_KEY, and IMAGEKIT_URL_ENDPOINT.''"

definition getClient :: "process_env \<Rightarrow> server_state \<Rightarrow> (js_error + ImageKit) \<times> server_state" where
  "getClient env s =
     (case client s of
        Some c \<Rightarrow> (Inr c, s)
      | None \<Rightarrow>
          (case (IMAGEKIT_PUBLIC_KEY env, IMAGEKIT_PRIVATE_KEY env, IMAGEKIT_URL_ENDPOINT env) of
             (Some pk, Some sk, Some ue) \<Rightarrow>
               if pk = [] \<or> sk = [] \<or> ue = [] then (Inl missing_credentials, s)
               else
                 (let c = \<lparr>publicKey = pk, privateKey = sk, urlEndpoint = ue, oid = constructed s\<rparr>
                  in (Inr c, s\<lparr>client := Some c, constructed := Suc (constructed s)\<rparr>))
           | _ \<Rightarrow> (Inl missing_credentials, s)))"

text \<open>
  The collaborators outside index.js: the methods of the client that reach the backend
  (a rejected promise is \<open>Inl\<close>), and the local filesystem, \<open>Buffer\<close> and \<open>path\<close> of Node.
\<close>

record world =
  ik_upload :: "uploadOptions \<Rightarrow> js_error + ik_object"
  ik_listFiles :: "listFiles_params \<Rightarrow> js_error + ik_object list"
  ik_url :: "url_options \<Rightarrow> string"
  fs_existsSync :: "string \<Rightarrow> bool"
  fs_readFileSync :: "string \<Rightarrow> js_error + nat list"
  toString_base64 :: "nat list \<Rightarrow> string"
  path_basename :: "string \<Rightarrow> string"

definition log_call :: "backend_call \<Rightarrow> server_state \<Rightarrow> server_state" where
  "log_call c s = s\<lparr>calls := calls s @ [c]\<rparr>"

section \<open>The shared upload helper\<close>

text \<open>
  The options object a handler passes on: the tool's arguments without the file and the
  file name. A field may be absent when the helper is called.
  \<^verbatim>\<open>
  async function uploadToImageKit(fileData, fileName, options = {}) {
    const ik = getClient();
    const uploadOptions = {
      file: fileData, fileName,
      folder: trimSlash(options.folder),
      useUniqueFileName: options.useUniqueFileName ?? true,
      isPrivateFile: options.isPrivateFile ?? false,
      overwriteFile: options.overwriteFile ?? false,
    };
    if (options.tags?.length) uploadOptions.tags = options.tags;
    if (options.customCoordinates) uploadOptions.customCoordinates = options.customCoordinates;
    if (options.customMetadata) uploadOptions.customMetadata = options.customMetadata;
    const result = await ik.upload(uploadOptions);
    return formatResult(`File uploaded successfully.\n\n` + ...);
  }
  \<close>
\<close>

record options =
  folder :: "string option"
  useUniqueFileName :: "bool option"
  isPrivateFile :: "bool option"
  overwriteFile :: "bool option"
  opt_tags :: "string list option"
  customCoordinates :: "string option"
  customMetadata :: "js_record option"

definition nullish_or :: "'a option \<Rightarrow> 'a \<Rightarrow> 'a" where
  "nullish_or v d = (case v of None \<Rightarrow> d | Some x \<Rightarrow> x)"

definition build_uploadOptions :: "string option \<Rightarrow> string \<Rightarrow> options \<Rightarrow> uploadOptions" where
  "build_uploadOptions fileData fileName opts =
     \<lparr>up_file = fileData,
      up_fileName = fileName,
      up_folder = trimSlash (folder opts),
      up_useUniqueFileName = nullish_or (useUniqueFileName opts) True,
      up_isPrivateFile = nullish_or (isPrivateFile opts) False,
      up_overwriteFile = nullish_or (overwriteFile opts) False,
      up_tags = (case opt_tags opts of
                   None \<Rightarrow> None
                 | Some ts \<Rightarrow> if length ts \<noteq> 0 then Some ts else None),
      up_customCoordinates = (if truthy_str (customCoordinates opts)
                              then customCoordinates opts else None),
      up_customMetadata = customMetadata opts\<rparr>"

definition upload_success_text :: "ik_object \<Rightarrow> string" where
  "upload_success_text result =
     ''File uploaded successfully.'' @ NL @ NL @
     ''   Name: '' @ tmpl (name result) @ NL @
     ''   ID: '' @ tmpl (fileId result) @ NL @
     ''   URL: '' @ tmpl (url result) @ NL @
     ''   Size: '' @ kb_toFixed1_opt (fsize result) @ '' KB'' @ NL @
     ''   Path: '' @ tmpl (filePath result) @ NL @
     ''   Type: '' @ tmpl (fileType result)"

definition uploadToImageKit ::
  "world \<Rightarrow> process_env \<Rightarrow> string option \<Rightarrow> string \<Rightarrow> options \<Rightarrow> server_state
     \<Rightarrow> (js_error + tool_result) \<times> server_state" where
  "uploadToImageKit w env fileData fileName opts s =
     (case getClient env s of
        (Inl e, s1) \<Rightarrow> (Inl e, s1)
      | (Inr ik, s1) \<Rightarrow>
          (let uo = build_uploadOptions fileData fileName opts;
               s2 = log_call (Call_upload uo) s1
           in case ik_upload w uo of
                Inl e \<Rightarrow> (Inl e, s2)
              | Inr result \<Rightarrow> (Inr (formatResult (upload_success_text result)), s2)))"

text \<open>
  The schema shared by the three upload tools fills in the defaults of absent fields
  before a handler runs:
  \<^verbatim>\<open>
  folder: z.string().default("/"),          useUniqueFileName: z.boolean().default(true),
  isPrivateFile: z.boolean().default(false), overwriteFile: z.boolean().default(false),
  tags: ....optional(), customCoordinates: ....optional(), customMetadata: ....optional()
  \<close>
\<close>

definition uploadOptionsSchema :: "options \<Rightarrow> options" where
  "uploadOptionsSchema raw =
     raw\<lparr>folder := Some (nullish_or (folder raw) ''/''),
         useUniqueFileName := Some (nullish_or (useUniqueFileName raw) True),
         isPrivateFile := Some (nullish_or (isPrivateFile raw) False),
         overwriteFile := Some (nullish_or (overwriteFile raw) False)\<rparr>"

section \<open>Tool handlers\<close>

text \<open>
  A handler takes the collaborators, the process environment, its validated arguments
  and the state of the server, and returns its outcome and the new state. \<open>Inl\<close> is an
  exception leaving the handler.
\<close>

type_synonym outcome = "(js_error + tool_result) \<times> server_state"

text \<open>
  \<^verbatim>\<open>
  async ({ path: folderPath }) => {
    const ik = getClient();
    const result = await ik.listFiles({ path: folderPath, includeFolder: true, type: "folder" });
    const folders = result.filter((item) => item.type === "folder");
    if (folders.length === 0) return formatResult(`No folders found in "${folderPath}".`);
    const lines = folders.map((f) => `${f.name}\n   ID: ${f.folderId}\n   Path: ${f.folderPath}`);
    return formatResult(`Found ${folders.length} folder(s) in "${folderPath}":\n\n${lines.join("\n\n")}`);
  }
  \<close>
\<close>

definition folder_line :: "ik_object \<Rightarrow> string" where
  "folder_line f =
     tmpl (name f) @ NL @ ''   ID: '' @ tmpl (folderId f) @ NL @ ''   Path: '' @ tmpl (folderPath f)"

definition list_folders :: "world \<Rightarrow> process_env \<Rightarrow> string \<Rightarrow> server_state \<Rightarrow> outcome" where
  "list_folders w env folderPath' s =
     (case getClient env s of
        (Inl e, s1) \<Rightarrow> (Inl e, s1)
      | (Inr ik, s1) \<Rightarrow>
          (let params = \<lparr>lf_path = folderPath', lf_includeFolder = True, lf_type = Some ''folder''\<rparr>;
               s2 = log_call (Call_listFiles params) s1
           in case ik_listFiles w params of
                Inl e \<Rightarrow> (Inl e, s2)
              | Inr result \<Rightarrow>
                  (let folders = filter (\<lambda>item. itype item = Some ''folder'') result
                   in if length folders = 0
                      then (Inr (formatResult
                              (''No folders found in '' @ DQ @ folderPath' @ DQ @ ''.'')), s2)
                      else
                        (let lines = map folder_line folders
                         in (Inr (formatResult
                               (''Found '' @ decimal (length folders) @ '' folder(s) in '' @
                                DQ @ folderPath' @ DQ @ '':'' @ NL @ NL @ join lines (NL @ NL))),
                             s2)))))"

text \<open>
  \<^verbatim>\<open>
  async ({ filePath, fileName, ...options }) => {
    if (!fs.existsSync(filePath)) return formatError(`File not found: ${filePath}`);
    const buffer = fs.readFileSync(filePath);
    const base64 = buffer.toString("base64");
    const name = fileName || path.basename(filePath);
    return uploadToImageKit(base64, name, options);
  }
  \<close>
\<close>

definition upload_file ::
  "world \<Rightarrow> process_env \<Rightarrow> string \<Rightarrow> string option \<Rightarrow> options \<Rightarrow> server_state \<Rightarrow> outcome" where
  "upload_file w env filePath' fileName opts s =
     (if \<not> fs_existsSync w filePath'
      then (Inr (formatError (''File not found: '' @ filePath')), s)
      else (case fs_readFileSync w filePath' of
              Inl e \<Rightarrow> (Inl e, s)
            | Inr buffer \<Rightarrow>
                (let base64 = toString_base64 w buffer;
                     name' = (case fileName of
                                None \<Rightarrow> path_basename w filePath'
                              | Some n \<Rightarrow> if n \<noteq> [] then n else path_basename w filePath')
                 in uploadToImageKit w env (Some base64) name' opts s)))"

text \<open>
  \<^verbatim>\<open>
  async ({ url, fileName, ...options }) => { return uploadToImageKit(url, fileName, options); }
  \<close>
\<close>

definition upload_file_from_url ::
  "world \<Rightarrow> process_env \<Rightarrow> string \<Rightarrow> string \<Rightarrow> options \<Rightarrow> server_state \<Rightarrow> outcome" where
  "upload_file_from_url w env url' fileName opts s = uploadToImageKit w env (Some url') fileName opts s"

text \<open>
  \<^verbatim>\<open>
  async ({ base64Data, fileName, ...options }) => {
    // Strip data URI prefix if present
    const clean = base64Data.startsWith("data:") ? base64Data.split(",")[1] : base64Data;
    return uploadToImageKit(clean, fileName, options);
  }
  \<close>
\<close>

definition clean :: "string \<Rightarrow> string option" where
  "clean base64Data =
     (if startsWith base64Data ''data:'' then at_index (split base64Data (CHR '','')) 1
      else Some base64Data)"

definition upload_base64_file ::
  "world \<Rightarrow> process_env \<Rightarrow> string \<Rightarrow> string \<Rightarrow> options \<Rightarrow> server_state \<Rightarrow> outcome" where
  "upload_base64_file w env base64Data fileName opts s =
     uploadToImageKit w env (clean base64Data) fileName opts s"

text \<open>
  generate_url. The schema gives \<open>transformationPosition\<close>, \<open>signed\<close> and \<open>expireSeconds\<close>
  their defaults (\<open>"path"\<close>, \<open>false\<close>, \<open>300\<close>) when the caller leaves them out.
  \<^verbatim>\<open>
  async ({ path: imgPath, src, transformation, transformationPosition, signed, expireSeconds }) => {
    if (!imgPath && !src) return formatError("Either 'path' or 'src' is required.");
    const ik = getClient();
    const options = { transformation_position: transformationPosition };
    if (imgPath) options.path = imgPath;
    if (src) options.src = src;
    if (transformation) options.transformation = transformation;
    if (signed) { options.signed = true; options.expire_seconds = expireSeconds; }
    const url = ik.url(options);
    return formatResult(`Generated URL:\n\n   ${url}` +
      (signed ? `\n\n   Signed: yes, expires in ${expireSeconds}s` : ""));
  }
  \<close>
\<close>

record generate_url_input =
  in_path :: "string option"
  in_src :: "string option"
  in_transformation :: "js_record list option"
  in_transformationPosition :: "position option"
  in_signed :: "bool option"
  in_expireSeconds :: "int option"

record generate_url_args =
  path :: "string option"
  src :: "string option"
  transformation :: "js_record list option"
  transformationPosition :: position
  signed :: bool
  expireSeconds :: int

definition generate_url_schema :: "generate_url_input \<Rightarrow> generate_url_args" where
  "generate_url_schema raw =
     \<lparr>path = in_path raw,
      src = in_src raw,
      transformation = in_transformation raw,
      transformationPosition = nullish_or (in_transformationPosition raw) Path,
      signed = nullish_or (in_signed raw) False,
      expireSeconds = nullish_or (in_expireSeconds raw) 300\<rparr>"

definition build_url_options :: "generate_url_args \<Rightarrow> url_options" where
  "build_url_options a =
     \<lparr>transformation_position = transformationPosition a,
      uo_path = (if truthy_str (path a) then path a else None),
      uo_src = (if truthy_str (src a) then src a else None),
      uo_transformation = transformation a,
      uo_signed = (if signed a then Some True else None),
      uo_expire_seconds = (if signed a then Some (expireSeconds a) else None)\<rparr>"

definition generate_url :: "world \<Rightarrow> process_env \<Rightarrow> generate_url_args \<Rightarrow> server_state \<Rightarrow> outcome" where
  "generate_url w env a s =
     (if \<not> truthy_str (path a) \<and> \<not> truthy_str (src a)
      then (Inr (formatError ''Either 'path' or 'src' is required.''), s)
      else (case getClient env s of
              (Inl e, s1) \<Rightarrow> (Inl e, s1)
            | (Inr ik, s1) \<Rightarrow>
                (let opts = build_url_options a;
                     url' = ik_url w opts
                 in (Inr (formatResult
                       (''Generated URL:'' @ NL @ NL @ ''   '' @ url' @
                        (if signed a
                         then NL @ NL @ ''   Signed: yes, expires in '' @
                              number_str (expireSeconds a) @ ''s''
                         else []))),
                     log_call (Call_url opts) s1))))"

definition tool_generate_url ::
  "world \<Rightarrow> process_env \<Rightarrow> generate_url_input \<Rightarrow> server_state \<Rightarrow> outcome" where
  "tool_generate_url w env raw s = generate_url w env (generate_url_schema raw) s"

section \<open>Observing a handler run\<close>

text \<open>
  The backend calls a handler run adds to the log: the calls of the resulting state
  after those of the state it started in.
\<close>

definition new_calls :: "server_state \<Rightarrow> outcome \<Rightarrow> backend_call list" where
  "new_calls s out = drop (length (calls s)) (calls (snd out))"

text \<open>The folder and the payload of a logged call, when the call is an upload.\<close>

fun sent_folder :: "backend_call \<Rightarrow> string option" where
  "sent_folder (Call_upload uo) = Some (up_folder uo)"
| "sent_folder _ = None"

fun sent_file :: "backend_call \<Rightarrow> string option option" where
  "sent_file (Call_upload uo) = Some (up_file uo)"
| "sent_file _ = None"

text \<open>A logged call is an upload request without the given field.\<close>

fun omits :: "(uploadOptions \<Rightarrow> 'a option) \<Rightarrow> backend_call \<Rightarrow> bool" where
  "omits field (Call_upload uo) = (field uo = None)"
| "omits field _ = False"



text \<open>
  The state of the singleton: unset, or a client that was constructed (its identity is
  below the number of constructions) from three non-empty credentials.
\<close>

definition client_inv :: "server_state \<Rightarrow> bool" where
  "client_inv s =
     (case client s of
        None \<Rightarrow> True
      | Some c \<Rightarrow> publicKey c \<noteq> [] \<and> privateKey c \<noteq> [] \<and> urlEndpoint c \<noteq> [] \<and>
                 oid c < constructed s)"

definition credentials_set :: "process_env \<Rightarrow> bool" where
  "credentials_set env =
     (truthy_str (IMAGEKIT_PUBLIC_KEY env) \<and> truthy_str (IMAGEKIT_PRIVATE_KEY env) \<and>
      truthy_str (IMAGEKIT_URL_ENDPOINT env))"

section \<open>The specification's wording, for comparison with the code\<close>

text \<open>
  The data-URI prefix as the specification words it: when the string starts with
  \<open>data:\<close>, split on the first comma and forward only the remainder; otherwise forward
  the string unchanged. With no comma there is no remainder.
\<close>

definition after_first_comma :: "string \<Rightarrow> string option" where
  "after_first_comma s =
     (case dropWhile (\<lambda>c. c \<noteq> CHR '','') s of [] \<Rightarrow> None | c # rest \<Rightarrow> Some rest)"

definition clean_spec :: "string \<Rightarrow> string option" where
  "clean_spec base64Data =
     (if startsWith base64Data ''data:'' then after_first_comma base64Data
      else Some base64Data)"

text \<open>
  The rendering of a file as the specification words it: a field counts when it is
  present.
\<close>

definition formatFileInfo_spec :: "ik_object \<Rightarrow> string" where
  "formatFileInfo_spec file =
     tmpl (name file) @ '' ('' @
     (case fileType file of None \<Rightarrow> ''file'' | Some t \<Rightarrow> if t = [] then ''file'' else t) @ '', '' @
     (case fsize file of None \<Rightarrow> ''N/A'' | Some n \<Rightarrow> kb_toFixed1 n @ '' KB'') @
     (case (width file, height file) of
        (Some w, Some h) \<Rightarrow> '', '' @ decimal w @ ''x'' @ decimal h
      | _ \<Rightarrow> []) @ '')'' @
     (case tags file of
        None \<Rightarrow> []
      | Some ts \<Rightarrow> if ts = [] then [] else NL @ ''   Tags: '' @ join ts '', '') @
     NL @ ''   ID: '' @ tmpl (fileId file) @ NL @ ''   URL: '' @ tmpl (url file)"

text \<open>
  The folder of an upload call, for the options the helper was given: the root when the
  folder is absent or empty, otherwise the folder without one trailing slash; and the
  result ends with a slash only when it is the root or when the folder given ended with
  two slashes.
\<close>

definition folder_sent :: "options \<Rightarrow> backend_call \<Rightarrow> bool" where
  "folder_sent opts c =
     (\<exists>uo. c = Call_upload uo \<and>
        up_folder uo =
          (case folder opts of
             None \<Rightarrow> ''/''
           | Some f \<Rightarrow> if f = [] then ''/'' else if endsWith f ''/'' then butlast f else f) \<and>
        (up_folder uo = ''/'' \<or> \<not> endsWith (up_folder uo) ''/'' \<or>
         (\<exists>g. folder opts = Some (g @ ''//''))))"

section \<open>Concrete runs\<close>

text \<open>
  The state the process starts in (\<open>let client = null\<close>, nothing sent yet), an
  environment with the three credentials and one with none, and the client the first
  call builds, with the state that caches it.
\<close>

definition initial_state :: server_state where
  "initial_state = \<lparr>client = None, constructed = 0, calls = []\<rparr>"

definition example_env :: process_env where
  "example_env =
     \<lparr>IMAGEKIT_PUBLIC_KEY = Some ''public_k'',
      IMAGEKIT_PRIVATE_KEY = Some ''private_k'',
      IMAGEKIT_URL_ENDPOINT = Some ''https://ik.example/demo''\<rparr>"

definition empty_env :: process_env where
  "empty_env =
     \<lparr>IMAGEKIT_PUBLIC_KEY = None, IMAGEKIT_PRIVATE_KEY = None, IMAGEKIT_URL_ENDPOINT = None\<rparr>"

definition example_client :: ImageKit where
  "example_client =
     \<lparr>publicKey = ''public_k'', privateKey = ''private_k'',
      urlEndpoint = ''https://ik.example/demo'', oid = 0\<rparr>"

definition connected_state :: server_state where
  "connected_state = \<lparr>client = Some example_client, constructed = 1, calls = []\<rparr>"

text \<open>
  A file and a folder as the backend returns them, a file of zero bytes, and
  collaborators that answer with them: the listing returns the file and the folder, and
  only \<open>/tmp/a.png\<close> exists on disk.
\<close>

definition example_file :: ik_object where
  "example_file =
     \<lparr>itype = Some ''file'', name = Some ''a.png'', fileId = Some ''f1'', folderId = None,
      folderPath = None, filePath = Some ''/photos/a.png'', fileType = Some ''image'',
      fsize = Some 1536, width = Some 640, height = Some 480, tags = Some [''x'', ''y''],
      url = Some ''https://ik.example/demo/photos/a.png''\<rparr>"

definition example_folder :: ik_object where
  "example_folder =
     \<lparr>itype = Some ''folder'', name = Some ''trips'', fileId = None, folderId = Some ''d1'',
      folderPath = Some ''/photos/trips'', filePath = None, fileType = None,
      fsize = None, width = None, height = None, tags = None, url = None\<rparr>"

definition empty_file :: ik_object where
  "empty_file = example_file\<lparr>name := Some ''empty.txt'', fileType := Some ''non-image'',
     fsize := Some 0, width := None, height := None, tags := None\<rparr>"

definition example_world :: world where
  "example_world =
     \<lparr>ik_upload = (\<lambda>uo. Inr example_file),
      ik_listFiles = (\<lambda>p. Inr [example_file, example_folder]),
      ik_url = (\<lambda>opts. ''https://ik.example/demo/a.png''),
      fs_existsSync = (\<lambda>p. p = ''/tmp/a.png''),
      fs_readFileSync = (\<lambda>p. if p = ''/tmp/a.png'' then Inr [1, 2, 3] else Inl (Error ''ENOENT'')),
      toString_base64 = (\<lambda>b. ''AQID''),
      path_basename = (\<lambda>p. ''a.png'')\<rparr>"

text \<open>Upload options with a folder that ends with a slash.\<close>

definition example_options :: options where
  "example_options =
     \<lparr>folder = Some ''/photos/'', useUniqueFileName = Some True, isPrivateFile = Some False,
      overwriteFile = Some False, opt_tags = None, customCoordinates = None,
      customMetadata = None\<rparr>"

text \<open>
  Three generate_url calls: one that names neither \<open>path\<close> nor \<open>src\<close>, and two for
  \<open>/a.png\<close>, signed with no \<open>expireSeconds\<close> and unsigned with an \<open>expireSeconds\<close> of 60.
\<close>

definition example_input :: generate_url_input where
  "example_input =
     \<lparr>in_path = None, in_src = None, in_transformation = None,
      in_transformationPosition = None, in_signed = None, in_expireSeconds = None\<rparr>"




section \<open>Folder trimming\<close>

lemma endsWith_slash: "endsWith f ''/'' = (f \<noteq> [] \<and> last f = CHR ''/'')"
proof (cases f rule: rev_cases)
  case Nil
  then show ?thesis by (simp add: endsWith_def)
next
  case (snoc g c)
  then show ?thesis by (auto simp: endsWith_def)
qed

lemma slice_butlast: "slice f 0 (- 1) = butlast f"
  by (cases f rule: rev_cases) (simp_all add: slice_def slice_index_def)

lemma trimSlash_Some:
  "trimSlash (Some f) = (if f = [] then ''/'' else if last f = CHR ''/'' then butlast f else f)"
  by (simp add: trimSlash_def truthy_str_def endsWith_slash slice_butlast)

lemma trimSlash_None: "trimSlash None = ''/''"
  by (simp add: trimSlash_def truthy_str_def)

lemma endsWith_two_slashes: "endsWith f ''//'' = (\<exists>g. f = g @ ''//'')"
proof
  assume "endsWith f ''//''"
  then have "f = take (length f - 2) f @ ''//''"
    by (metis append_take_drop_id endsWith_def length_Cons list.size(3) numeral_2_eq_2)
  then show "\<exists>g. f = g @ ''//''" ..
next
  assume "\<exists>g. f = g @ ''//''"
  then show "endsWith f ''//''" by (auto simp: endsWith_def)
qed

text \<open>
  The root folder itself loses its slash, and the empty string that results is mapped
  back to the root by a second application.
\<close>

lemma trimSlash_root: "trimSlash (Some ''/'') = [] \<and> trimSlash (Some []) = ''/''"
  by (simp add: trimSlash_Some)

text \<open>
  C2, as stated, fails: trimming removes one slash only, so a folder that ends with two
  slashes is trimmed again by a second application.
\<close>

theorem trimSlash_not_idempotent:
  "trimSlash (Some ''a//'') = ''a/''
   \<and> trimSlash (Some (trimSlash (Some ''a//''))) = ''a''
   \<and> trimSlash (Some (trimSlash (Some ''a//''))) \<noteq> trimSlash (Some ''a//'')"
  by (simp add: trimSlash_Some)

text \<open>
  C2 (amended): \<open>trim (trim f) = trim f\<close> for every folder string \<open>f\<close> that is neither
  empty nor the root \<open>/\<close> and does not end with two slashes; \<open>trim ""\<close> is \<open>/\<close> and
  \<open>trim "/a/b/"\<close> is \<open>/a/b\<close>.
\<close>

theorem trimSlash_idempotent:
  assumes "f \<noteq> []" and "f \<noteq> ''/''" and "\<not> endsWith f ''//''"
  shows "trimSlash (Some (trimSlash (Some f))) = trimSlash (Some f)
         \<and> trimSlash (Some []) = ''/'' \<and> trimSlash (Some ''/a/b/'') = ''/a/b''"
proof -
  have idem: "trimSlash (Some (trimSlash (Some f))) = trimSlash (Some f)"
  proof (cases "last f = CHR ''/''")
    case False
    with assms(1) show ?thesis by (simp add: trimSlash_Some)
  next
    case True
    with assms(1) obtain g where f: "f = g @ ''/''"
      by (metis append_butlast_last_id)
    from f assms(2) have g: "g \<noteq> []" by auto
    from f assms(3) have "last g \<noteq> CHR ''/''"
      using g by (metis append.assoc append_Cons append_Nil append_butlast_last_id endsWith_two_slashes)
    with f g show ?thesis by (simp add: trimSlash_Some)
  qed
  then show ?thesis by (simp add: trimSlash_Some)
qed

theorem trimSlash_idempotent_witness:
  "''/photos/'' \<noteq> [] \<and> ''/photos/'' \<noteq> ''/'' \<and> \<not> endsWith ''/photos/'' ''//''
   \<and> trimSlash (Some (trimSlash (Some ''/photos/''))) = trimSlash (Some ''/photos/'')
   \<and> trimSlash (Some ''/photos/'') = ''/photos''"
  using trimSlash_idempotent [of "''/photos/''"]
  by (simp add: endsWith_def trimSlash_Some)

section \<open>What a handler run sends to the backend\<close>

lemma getClient_calls: "calls (snd (getClient env s)) = calls s"
  by (simp add: getClient_def Let_def split: option.splits)

lemma getClient_Inr_calls: "getClient env s = (r, s1) \<Longrightarrow> calls s1 = calls s"
  using getClient_calls [of env s] by simp

lemma new_calls_same [simp]: "new_calls s (r, s) = []"
  by (simp add: new_calls_def)

lemma new_calls_uploadToImageKit:
  "new_calls s (uploadToImageKit w env d n opts s) =
     (case fst (getClient env s) of
        Inl e \<Rightarrow> []
      | Inr ik \<Rightarrow> [Call_upload (build_uploadOptions d n opts)])"
  by (cases "getClient env s")
     (auto simp: new_calls_def uploadToImageKit_def log_call_def Let_def
           dest: getClient_Inr_calls split: sum.splits)

lemma upload_file_cases:
  "(\<exists>r. upload_file w env p fn opts s = (r, s)) \<or>
   (\<exists>d n. upload_file w env p fn opts s = uploadToImageKit w env d n opts s)"
  by (auto simp: upload_file_def Let_def split: sum.splits option.splits)

lemma new_calls_upload_file:
  assumes "c \<in> set (new_calls s (upload_file w env p fn opts s))"
  shows "\<exists>d n. c = Call_upload (build_uploadOptions d n opts)"
  using upload_file_cases [of w env p fn opts s] assms
  by (fastforce simp: new_calls_uploadToImageKit split: sum.splits)

text \<open>Unfolding a handler run on the concrete collaborators.\<close>

lemmas run_defs =
  new_calls_def upload_file_def upload_file_from_url_def upload_base64_file_def clean_def
  uploadToImageKit_def getClient_def log_call_def build_uploadOptions_def
  nullish_or_def truthy_str_def startsWith_def at_index_def Let_def
  initial_state_def example_env_def example_world_def example_options_def example_file_def

subsection \<open>The folder of an upload\<close>

lemma build_folder_sent:
  assumes "folder opts \<noteq> Some ''/''"
  shows "folder_sent opts (Call_upload (build_uploadOptions d n opts))"
proof (cases "folder opts")
  case None
  then show ?thesis by (simp add: folder_sent_def build_uploadOptions_def trimSlash_None)
next
  case (Some f)
  show ?thesis
  proof (cases f rule: rev_cases)
    case Nil
    with Some show ?thesis by (simp add: folder_sent_def build_uploadOptions_def trimSlash_Some)
  next
    case (snoc g c)
    show ?thesis
    proof (cases "c = CHR ''/''")
      case False
      with Some snoc show ?thesis
        by (simp add: folder_sent_def build_uploadOptions_def trimSlash_Some endsWith_slash)
    next
      case True
      have up: "up_folder (build_uploadOptions d n opts) = g"
        using Some snoc True by (simp add: build_uploadOptions_def trimSlash_Some)
      have two: "\<exists>h. folder opts = Some (h @ ''//'')" if "endsWith g ''/''"
      proof -
        from that have "g = butlast g @ ''/''"
          by (metis append_butlast_last_id endsWith_slash)
        with Some snoc True have "folder opts = Some (butlast g @ ''//'')" by simp
        then show ?thesis ..
      qed
      from up two Some snoc True show ?thesis
        by (auto simp: folder_sent_def endsWith_slash)
    qed
  qed
qed

text \<open>
  The schema's default folder is the root, and the root is trimmed to the empty string:
  an upload that names no folder, or names \<open>/\<close>, sends \<open>folder: ""\<close>.
\<close>

lemma upload_root_folder:
  "folder raw = None \<or> folder raw = Some ''/'' \<Longrightarrow>
     up_folder (build_uploadOptions d n (uploadOptionsSchema raw)) = []"
  by (auto simp: build_uploadOptions_def uploadOptionsSchema_def nullish_or_def trimSlash_Some)

text \<open>
  C3, as stated, fails: a folder that ends with two slashes is sent with one of them
  left, which is neither the root nor free of a trailing slash.
\<close>

theorem upload_folder_double_slash:
  "map sent_folder
     (new_calls initial_state
        (upload_base64_file example_world example_env ''AAAA'' ''a.png''
           (example_options\<lparr>folder := Some ''a//''\<rparr>) initial_state)) = [Some ''a/'']
   \<and> endsWith ''a/'' ''/'' \<and> ''a/'' \<noteq> ''/''"
  by (simp add: run_defs trimSlash_Some endsWith_slash)

text \<open>
  C3 (amended): for every upload, through the helper or any of the three upload tools,
  whose folder option is not the root \<open>/\<close> itself: every upload request sent carries as
  its folder \<open>/\<close> when the folder option is absent or empty, and otherwise the option with
  a single trailing slash removed if present; that folder does not end with a slash,
  unless it is the root or the option ended with two slashes.
\<close>

theorem upload_folder_trimmed:
  assumes "folder opts \<noteq> Some ''/''"
  shows "(\<forall>c \<in> set (new_calls s (uploadToImageKit w env d n opts s)). folder_sent opts c)
       \<and> (\<forall>c \<in> set (new_calls s (upload_file w env p fn opts s)). folder_sent opts c)
       \<and> (\<forall>c \<in> set (new_calls s (upload_file_from_url w env u n opts s)). folder_sent opts c)
       \<and> (\<forall>c \<in> set (new_calls s (upload_base64_file w env b n opts s)). folder_sent opts c)"
proof -
  have h: "\<And>d n. folder_sent opts (Call_upload (build_uploadOptions d n opts))"
    using assms by (rule build_folder_sent)
  have 1: "\<And>d n. \<forall>c \<in> set (new_calls s (uploadToImageKit w env d n opts s)). folder_sent opts c"
    using h by (auto simp: new_calls_uploadToImageKit split: sum.splits)
  have 2: "\<forall>c \<in> set (new_calls s (upload_file w env p fn opts s)). folder_sent opts c"
    using h by (blast dest: new_calls_upload_file)
  from 1 2 show ?thesis
    by (simp add: upload_file_from_url_def upload_base64_file_def)
qed

theorem upload_folder_trimmed_witness:
  "folder example_options \<noteq> Some ''/''
   \<and> map sent_folder
       (new_calls initial_state
          (upload_base64_file example_world example_env ''AAAA'' ''a.png''
             example_options initial_state)) = [Some ''/photos'']
   \<and> list_all (folder_sent example_options)
       (new_calls initial_state
          (upload_base64_file example_world example_env ''AAAA'' ''a.png''
             example_options initial_state))"
proof -
  have h: "folder example_options \<noteq> Some ''/''"
    by (simp add: example_options_def)
  have run: "map sent_folder
       (new_calls initial_state
          (upload_base64_file example_world example_env ''AAAA'' ''a.png''
             example_options initial_state)) = [Some ''/photos'']"
    by (simp add: run_defs trimSlash_Some)
  from upload_folder_trimmed [OF h, of initial_state example_world example_env]
  have "\<forall>c \<in> set (new_calls initial_state
          (upload_base64_file example_world example_env ''AAAA'' ''a.png''
             example_options initial_state)). folder_sent example_options c"
    by blast
  with h run show ?thesis by (simp add: list_all_iff)
qed

section \<open>The client singleton\<close>

lemma getClient_cached: "client s = Some c \<Longrightarrow> getClient env s = (Inr c, s)"
  by (simp add: getClient_def)

lemma getClient_Inr:
  assumes "getClient env s = (Inr c, s1)"
  shows "client s1 = Some c"
  using assms by (auto simp: getClient_def Let_def split: option.splits if_splits)

lemma getClient_Inl:
  assumes "getClient env s = (Inl e, s1)"
  shows "s1 = s \<and> client s = None \<and> e = missing_credentials \<and> \<not> credentials_set env"
  using assms
  by (auto simp: getClient_def Let_def credentials_set_def truthy_str_def
           split: option.splits if_splits)

lemma getClient_construct:
  assumes "client s = None" and "credentials_set env"
  shows "\<exists>c. getClient env s = (Inr c, s\<lparr>client := Some c, constructed := Suc (constructed s)\<rparr>)
           \<and> Some (publicKey c) = IMAGEKIT_PUBLIC_KEY env
           \<and> Some (privateKey c) = IMAGEKIT_PRIVATE_KEY env
           \<and> Some (urlEndpoint c) = IMAGEKIT_URL_ENDPOINT env
           \<and> oid c = constructed s"
  using assms
  by (auto simp: getClient_def Let_def credentials_set_def truthy_str_def split: option.splits)

lemma getClient_inv: "client_inv s \<Longrightarrow> client_inv (snd (getClient env s))"
  by (auto simp: getClient_def Let_def client_inv_def split: option.splits)

lemma log_call_inv [simp]: "client_inv (log_call c s) = client_inv s"
  by (simp add: client_inv_def log_call_def split: option.splits)

lemma uploadToImageKit_inv:
  "client_inv s \<Longrightarrow> client_inv (snd (uploadToImageKit w env d n opts s))"
  using getClient_inv [of s env]
  by (cases "getClient env s") (auto simp: uploadToImageKit_def Let_def split: sum.splits)

lemma upload_file_inv:
  "client_inv s \<Longrightarrow> client_inv (snd (upload_file w env p fn opts s))"
  using upload_file_cases [of w env p fn opts s] uploadToImageKit_inv [of s w env]
  by auto

lemma list_folders_inv:
  "client_inv s \<Longrightarrow> client_inv (snd (list_folders w env p s))"
  using getClient_inv [of s env]
  by (cases "getClient env s") (auto simp: list_folders_def Let_def split: sum.splits)

lemma generate_url_inv:
  "client_inv s \<Longrightarrow> client_inv (snd (generate_url w env a s))"
  using getClient_inv [of s env]
  by (cases "getClient env s") (auto simp: generate_url_def Let_def split: sum.splits)

text \<open>
  C9: the singleton is unset or holds a constructed client, and \<open>getClient\<close> and every
  handler keep it so; once \<open>getClient\<close> has returned a client, every later call returns
  that same client and the same state, whatever the environment then holds; when
  \<open>getClient\<close> throws, the state is unchanged and still unset, and a later call under an
  environment with all three credentials constructs a client from them and caches it.
\<close>

theorem getClient_singleton:
  "(client_inv s \<longrightarrow>
      client_inv (snd (getClient env s))
      \<and> client_inv (snd (uploadToImageKit w env d n opts s))
      \<and> client_inv (snd (upload_file w env p fn opts s))
      \<and> client_inv (snd (upload_file_from_url w env u n opts s))
      \<and> client_inv (snd (upload_base64_file w env b n opts s))
      \<and> client_inv (snd (list_folders w env p s))
      \<and> client_inv (snd (generate_url w env a s)))
   \<and> (\<forall>c s1. getClient env s = (Inr c, s1) \<longrightarrow>
         client s1 = Some c \<and> (\<forall>env'. getClient env' s1 = (Inr c, s1)))
   \<and> (\<forall>e s1. getClient env s = (Inl e, s1) \<longrightarrow>
         s1 = s \<and> client s1 = None \<and>
         (\<forall>env'. credentials_set env' \<longrightarrow>
            (\<exists>c. getClient env' s1 =
                    (Inr c, s1\<lparr>client := Some c, constructed := Suc (constructed s1)\<rparr>)
                 \<and> Some (publicKey c) = IMAGEKIT_PUBLIC_KEY env'
                 \<and> Some (privateKey c) = IMAGEKIT_PRIVATE_KEY env'
                 \<and> Some (urlEndpoint c) = IMAGEKIT_URL_ENDPOINT env')))"
proof (intro conjI impI allI)
  fix c s1 env'
  assume "getClient env s = (Inr c, s1)"
  then have "client s1 = Some c" by (rule getClient_Inr)
  then show "client s1 = Some c" and "getClient env' s1 = (Inr c, s1)"
    by (simp_all add: getClient_cached)
next
  fix e s1
  assume a: "getClient env s = (Inl e, s1)"
  then show "s1 = s" and "client s1 = None"
    by (auto dest: getClient_Inl)
  fix env'
  assume "credentials_set env'"
  with a show "\<exists>c. getClient env' s1 =
                    (Inr c, s1\<lparr>client := Some c, constructed := Suc (constructed s1)\<rparr>)
                 \<and> Some (publicKey c) = IMAGEKIT_PUBLIC_KEY env'
                 \<and> Some (privateKey c) = IMAGEKIT_PRIVATE_KEY env'
                 \<and> Some (urlEndpoint c) = IMAGEKIT_URL_ENDPOINT env'"
    using getClient_construct [of s1 env'] getClient_Inl [of env s e s1] by auto
qed (simp_all add: getClient_inv uploadToImageKit_inv upload_file_inv list_folders_inv
       generate_url_inv upload_file_from_url_def upload_base64_file_def)

theorem getClient_singleton_witness:
  "client_inv initial_state
   \<and> getClient empty_env initial_state = (Inl missing_credentials, initial_state)
   \<and> credentials_set example_env
   \<and> getClient example_env initial_state = (Inr example_client, connected_state)
   \<and> client_inv connected_state
   \<and> getClient empty_env connected_state = (Inr example_client, connected_state)"
proof -
  have inv: "client_inv initial_state"
    by (simp add: client_inv_def initial_state_def)
  have thrown: "getClient empty_env initial_state = (Inl missing_credentials, initial_state)"
    by (simp add: getClient_def empty_env_def initial_state_def)
  have creds: "credentials_set example_env"
    by (simp add: credentials_set_def example_env_def truthy_str_def)
  have built: "getClient example_env initial_state = (Inr example_client, connected_state)"
    by (simp add: getClient_def example_env_def initial_state_def example_client_def
          connected_state_def Let_def)
  from getClient_singleton [of initial_state example_env] inv built
  have "client_inv (snd (getClient example_env initial_state))"
    and "\<forall>env'. getClient env' connected_state = (Inr example_client, connected_state)"
    by blast+
  with inv thrown creds built show ?thesis by simp
qed

section \<open>Short-circuits before the backend\<close>

text \<open>
  C4: a generate_url call in which both \<open>path\<close> and \<open>src\<close> are absent returns the error
  envelope with \<open>isError = true\<close> and the message \<open>Either 'path' or 'src' is required.\<close>;
  the state is the one the call started in: no backend call is logged, no client is
  constructed and the cache is untouched.
\<close>

theorem generate_url_requires_source:
  assumes "in_path raw = None" and "in_src raw = None"
  shows "tool_generate_url w env raw s =
           (Inr \<lparr>content = [\<lparr>ctype = ''text'', ctext = ''Either 'path' or 'src' is required.''\<rparr>],
                 isError = Some True\<rparr>, s)
         \<and> new_calls s (tool_generate_url w env raw s) = []
         \<and> constructed (snd (tool_generate_url w env raw s)) = constructed s
         \<and> client (snd (tool_generate_url w env raw s)) = client s"
  using assms
  by (simp add: tool_generate_url_def generate_url_def generate_url_schema_def truthy_str_def
        formatError_def)

theorem generate_url_requires_source_witness:
  "in_path example_input = None \<and> in_src example_input = None
   \<and> tool_generate_url example_world example_env example_input initial_state =
       (Inr \<lparr>content = [\<lparr>ctype = ''text'', ctext = ''Either 'path' or 'src' is required.''\<rparr>],
             isError = Some True\<rparr>, initial_state)"
  using generate_url_requires_source [of example_input example_world example_env initial_state]
  by (simp add: example_input_def)

text \<open>
  C6: an upload_file call whose path does not exist (as \<open>fs.existsSync\<close> reports) returns
  the error envelope with \<open>isError = true\<close> and the message \<open>File not found: \<close> followed by
  the path; the state is the one the call started in: no backend call is logged and no
  client is constructed.
\<close>

theorem upload_file_not_found:
  assumes "\<not> fs_existsSync w p"
  shows "upload_file w env p fn opts s =
           (Inr \<lparr>content = [\<lparr>ctype = ''text'', ctext = ''File not found: '' @ p\<rparr>],
                 isError = Some True\<rparr>, s)
         \<and> new_calls s (upload_file w env p fn opts s) = []
         \<and> constructed (snd (upload_file w env p fn opts s)) = constructed s
         \<and> client (snd (upload_file w env p fn opts s)) = client s"
  using assms by (simp add: upload_file_def formatError_def)

theorem upload_file_not_found_witness:
  "\<not> fs_existsSync example_world ''/tmp/missing.png''
   \<and> upload_file example_world example_env ''/tmp/missing.png'' None example_options initial_state =
       (Inr \<lparr>content = [\<lparr>ctype = ''text'', ctext = ''File not found: /tmp/missing.png''\<rparr>],
             isError = Some True\<rparr>, initial_state)"
proof -
  have h: "\<not> fs_existsSync example_world ''/tmp/missing.png''"
    by (simp add: example_world_def)
  from upload_file_not_found [OF h, of example_env None example_options initial_state] h
  show ?thesis by simp
qed

section \<open>Optional upload fields\<close>

lemma build_uploadOptions_empty_tags:
  "build_uploadOptions d n (opts\<lparr>opt_tags := Some []\<rparr>) =
   build_uploadOptions d n (opts\<lparr>opt_tags := None\<rparr>)"
  by (simp add: build_uploadOptions_def)

lemma build_uploadOptions_empty_coordinates:
  "build_uploadOptions d n (opts\<lparr>customCoordinates := Some []\<rparr>) =
   build_uploadOptions d n (opts\<lparr>customCoordinates := None\<rparr>)"
  by (simp add: build_uploadOptions_def truthy_str_def)

lemma uploadToImageKit_build_cong:
  assumes "\<And>d n. build_uploadOptions d n o1 = build_uploadOptions d n o2"
  shows "uploadToImageKit w env d n o1 s = uploadToImageKit w env d n o2 s"
  unfolding uploadToImageKit_def assms by (rule refl)

lemma upload_tools_build_cong:
  assumes "\<And>d n. build_uploadOptions d n o1 = build_uploadOptions d n o2"
  shows "upload_file w env p fn o1 s = upload_file w env p fn o2 s"
    and "upload_file_from_url w env u n o1 s = upload_file_from_url w env u n o2 s"
    and "upload_base64_file w env b n o1 s = upload_base64_file w env b n o2 s"
  unfolding upload_file_def upload_file_from_url_def upload_base64_file_def
    uploadToImageKit_build_cong [of o1 o2, OF assms]
  by (rule refl)+

text \<open>An empty metadata object, unlike an absent one, is truthy and is forwarded.\<close>

lemma empty_customMetadata_forwarded:
  "up_customMetadata (build_uploadOptions d n (opts\<lparr>customMetadata := Some []\<rparr>)) = Some []"
  by (simp add: build_uploadOptions_def)

text \<open>
  C10: through the helper and each of the three upload tools, an empty \<open>tags\<close> list gives
  the same outcome and the same state (hence the same request) as absent \<open>tags\<close>, and an
  empty-string \<open>customCoordinates\<close> the same as an absent one; the request sent then has
  no \<open>tags\<close>, respectively no \<open>customCoordinates\<close> field, and with \<open>customMetadata\<close> absent
  it has no \<open>customMetadata\<close> field.
\<close>

theorem empty_optional_fields_omitted:
  "uploadToImageKit w env d n (opts\<lparr>opt_tags := Some []\<rparr>) s =
     uploadToImageKit w env d n (opts\<lparr>opt_tags := None\<rparr>) s
   \<and> upload_file w env p fn (opts\<lparr>opt_tags := Some []\<rparr>) s =
     upload_file w env p fn (opts\<lparr>opt_tags := None\<rparr>) s
   \<and> upload_file_from_url w env u n (opts\<lparr>opt_tags := Some []\<rparr>) s =
     upload_file_from_url w env u n (opts\<lparr>opt_tags := None\<rparr>) s
   \<and> upload_base64_file w env b n (opts\<lparr>opt_tags := Some []\<rparr>) s =
     upload_base64_file w env b n (opts\<lparr>opt_tags := None\<rparr>) s
   \<and> uploadToImageKit w env d n (opts\<lparr>customCoordinates := Some []\<rparr>) s =
     uploadToImageKit w env d n (opts\<lparr>customCoordinates := None\<rparr>) s
   \<and> upload_file w env p fn (opts\<lparr>customCoordinates := Some []\<rparr>) s =
     upload_file w env p fn (opts\<lparr>customCoordinates := None\<rparr>) s
   \<and> upload_file_from_url w env u n (opts\<lparr>customCoordinates := Some []\<rparr>) s =
     upload_file_from_url w env u n (opts\<lparr>customCoordinates := None\<rparr>) s
   \<and> upload_base64_file w env b n (opts\<lparr>customCoordinates := Some []\<rparr>) s =
     upload_base64_file w env b n (opts\<lparr>customCoordinates := None\<rparr>) s
   \<and> list_all (omits up_tags)
       (new_calls s (uploadToImageKit w env d n (opts\<lparr>opt_tags := Some []\<rparr>) s))
   \<and> list_all (omits up_customCoordinates)
       (new_calls s (uploadToImageKit w env d n (opts\<lparr>customCoordinates := Some []\<rparr>) s))
   \<and> list_all (omits up_customMetadata)
       (new_calls s (uploadToImageKit w env d n (opts\<lparr>customMetadata := None\<rparr>) s))"
proof -
  have f: "up_tags (build_uploadOptions d n (opts\<lparr>opt_tags := Some []\<rparr>)) = None"
    "up_customCoordinates (build_uploadOptions d n (opts\<lparr>customCoordinates := Some []\<rparr>)) = None"
    "up_customMetadata (build_uploadOptions d n (opts\<lparr>customMetadata := None\<rparr>)) = None"
    by (simp_all add: build_uploadOptions_def truthy_str_def)
  have l: "list_all (omits up_tags)
       (new_calls s (uploadToImageKit w env d n (opts\<lparr>opt_tags := Some []\<rparr>) s))"
    "list_all (omits up_customCoordinates)
       (new_calls s (uploadToImageKit w env d n (opts\<lparr>customCoordinates := Some []\<rparr>) s))"
    "list_all (omits up_customMetadata)
       (new_calls s (uploadToImageKit w env d n (opts\<lparr>customMetadata := None\<rparr>) s))"
    using f by (simp_all add: new_calls_uploadToImageKit split: sum.splits)
  show ?thesis
    using l
    by (simp add: uploadToImageKit_build_cong [OF build_uploadOptions_empty_tags]
          uploadToImageKit_build_cong [OF build_uploadOptions_empty_coordinates]
          upload_tools_build_cong [OF build_uploadOptions_empty_tags]
          upload_tools_build_cong [OF build_uploadOptions_empty_coordinates])
qed

theorem empty_optional_fields_omitted_witness:
  "new_calls initial_state
     (upload_file_from_url example_world example_env ''https://example.org/a.png'' ''a.png''
        (example_options\<lparr>opt_tags := Some []\<rparr>) initial_state) =
   new_calls initial_state
     (upload_file_from_url example_world example_env ''https://example.org/a.png'' ''a.png''
        (example_options\<lparr>opt_tags := None\<rparr>) initial_state)
   \<and> map (omits up_tags)
       (new_calls initial_state
          (upload_file_from_url example_world example_env ''https://example.org/a.png'' ''a.png''
             (example_options\<lparr>opt_tags := Some []\<rparr>) initial_state)) = [True]"
proof -
  have run: "map (omits up_tags)
       (new_calls initial_state
          (upload_file_from_url example_world example_env ''https://example.org/a.png'' ''a.png''
             (example_options\<lparr>opt_tags := Some []\<rparr>) initial_state)) = [True]"
    by (simp add: run_defs)
  from empty_optional_fields_omitted [of example_world example_env _ "''a.png''"
         example_options initial_state _ _ "''https://example.org/a.png''"]
  have "upload_file_from_url example_world example_env ''https://example.org/a.png'' ''a.png''
          (example_options\<lparr>opt_tags := Some []\<rparr>) initial_state =
        upload_file_from_url example_world example_env ''https://example.org/a.png'' ''a.png''
          (example_options\<lparr>opt_tags := None\<rparr>) initial_state"
    by blast
  with run show ?thesis by simp
qed

section \<open>generate_url\<close>







section \<open>list_folders\<close>



section \<open>upload_base64_file: the data-URI prefix\<close>

lemma split_no_sep: "c \<notin> set xs \<Longrightarrow> split xs c = [xs]"
  by (induction xs) auto

lemma split_at_first: "c \<notin> set p \<Longrightarrow> split (p @ c # r) c = p # split r c"
  by (induction p) auto

lemma split_nonempty: "split xs c \<noteq> []"
  by (induction xs) (auto split: list.splits)

lemma clean_no_prefix: "\<not> startsWith b ''data:'' \<Longrightarrow> clean b = Some b"
  by (simp add: clean_def)

text \<open>
  On a string with the prefix and exactly one comma, the code and the specification's
  wording agree: the payload is what follows the comma.
\<close>

lemma clean_one_comma:
  assumes "startsWith (p @ CHR '','' # r) ''data:''"
    and "CHR '','' \<notin> set p" and "CHR '','' \<notin> set r"
  shows "clean (p @ CHR '','' # r) = Some r"
    and "clean_spec (p @ CHR '','' # r) = Some r"
proof -
  from assms show "clean (p @ CHR '','' # r) = Some r"
    by (simp add: clean_def split_at_first split_no_sep at_index_def)
  have "dropWhile (\<lambda>c. c \<noteq> CHR '','') (p @ CHR '','' # r) = CHR '','' # r"
    using assms(2) by (auto simp: dropWhile_append3)
  with assms(1) show "clean_spec (p @ CHR '','' # r) = Some r"
    by (simp add: clean_spec_def after_first_comma_def)
qed

lemma clean_examples:
  "clean ''data:image/png;base64,AAAA'' = Some ''AAAA''
   \<and> clean ''AAAA'' = Some ''AAAA''
   \<and> clean ''data:text/plain;base64,aGVsbG8='' = Some ''aGVsbG8=''"
  by (simp add: clean_def startsWith_def at_index_def)

text \<open>With the prefix and no comma, the payload forwarded is \<open>undefined\<close>.\<close>

lemma clean_no_comma: "clean ''data:AAAA'' = None"
  by (simp add: clean_def startsWith_def at_index_def)

text \<open>
  C1 at the input \<open>data:text/plain,a,b\<close>: the code takes the second element of
  \<open>split(",")\<close> and forwards \<open>a\<close> to the upload helper, where the remainder after the first
  comma is \<open>a,b\<close>.
\<close>

theorem upload_base64_second_comma:
  "clean ''data:text/plain,a,b'' = Some ''a''
   \<and> clean_spec ''data:text/plain,a,b'' = Some ''a,b''
   \<and> map sent_file
        (new_calls initial_state
           (upload_base64_file example_world example_env ''data:text/plain,a,b'' ''t.txt''
              example_options initial_state)) = [Some (Some ''a'')]"
  by (simp add: run_defs clean_spec_def after_first_comma_def)

section \<open>formatFileInfo\<close>

lemma decimal_digit: "n < 10 \<Longrightarrow> decimal n = [digit_char n]"
  by (simp add: decimal.simps)

lemma decimal_nonempty: "decimal n \<noteq> []"
  by (subst decimal.simps) simp

lemma kb_toFixed1_0: "kb_toFixed1 0 = ''0.0''"
  by (simp add: kb_toFixed1_def decimal_digit digit_char_def)

text \<open>
  C7, as stated, fails: the size is tested for truthiness, so a size that is present and
  zero is rendered as \<open>N/A\<close>, not as \<open>0.0 KB\<close>.
\<close>

theorem formatFileInfo_zero_size:
  "fsize empty_file = Some 0
   \<and> numbers_in_range empty_file
   \<and> formatFileInfo empty_file =
       ''empty.txt (non-image, N/A)'' @ NL @ ''   ID: f1'' @ NL @
       ''   URL: https://ik.example/demo/photos/a.png''
   \<and> formatFileInfo_spec empty_file =
       ''empty.txt (non-image, 0.0 KB)'' @ NL @ ''   ID: f1'' @ NL @
       ''   URL: https://ik.example/demo/photos/a.png''
   \<and> formatFileInfo empty_file \<noteq> formatFileInfo_spec empty_file"
  by (simp add: formatFileInfo_def formatFileInfo_spec_def empty_file_def example_file_def
        numbers_in_range_def truthy_num_def truthy_str_def tmpl_def kb_toFixed1_0 NL_def)

text \<open>
  C7 (amended): for every file whose size, when present, is below \<open>1024 * 10^21\<close> bytes and
  whose width and height, when present, are below \<open>2^53\<close>, formatFileInfo renders the
  name; the type, or \<open>file\<close> when the type is absent or empty; the size in KB with one
  decimal place, or \<open>N/A\<close> exactly when the size is absent or zero; the dimensions as
  \<open>WxH\<close> exactly when width and height are both present and non-zero; a Tags line exactly
  when the tags list is present and non-empty; then the id and the url on the following
  lines. The size in KB is the tenth nearest to \<open>size / 1024\<close>, the upper one on a tie,
  written with one digit after the point.
\<close>

theorem formatFileInfo_rendering:
  assumes "numbers_in_range file"
  shows "formatFileInfo file =
     tmpl (name file) @ '' ('' @
     (case fileType file of None \<Rightarrow> ''file'' | Some t \<Rightarrow> if t = [] then ''file'' else t) @ '', '' @
     (case fsize file of
        None \<Rightarrow> ''N/A''
      | Some n \<Rightarrow> if n = 0 then ''N/A'' else kb_toFixed1 n @ '' KB'') @
     (case (width file, height file) of
        (Some w, Some h) \<Rightarrow> if w = 0 \<or> h = 0 then [] else '', '' @ decimal w @ ''x'' @ decimal h
      | _ \<Rightarrow> []) @ '')'' @
     (case tags file of
        None \<Rightarrow> []
      | Some ts \<Rightarrow> if ts = [] then [] else NL @ ''   Tags: '' @ join ts '', '') @
     NL @ ''   ID: '' @ tmpl (fileId file) @ NL @ ''   URL: '' @ tmpl (url file)
   \<and> (case fsize file of
        None \<Rightarrow> True
      | Some n \<Rightarrow>
          n < 1024 * 10 ^ 21 \<and>
          (\<exists>q. kb_toFixed1 n = decimal (q div 10) @ ''.'' @ [digit_char (q mod 10)]
             \<and> 2048 * q \<le> 20 * n + 1024 \<and> 20 * n + 1024 < 2048 * (q + 1)))"
proof
  show "formatFileInfo file =
     tmpl (name file) @ '' ('' @
     (case fileType file of None \<Rightarrow> ''file'' | Some t \<Rightarrow> if t = [] then ''file'' else t) @ '', '' @
     (case fsize file of
        None \<Rightarrow> ''N/A''
      | Some n \<Rightarrow> if n = 0 then ''N/A'' else kb_toFixed1 n @ '' KB'') @
     (case (width file, height file) of
        (Some w, Some h) \<Rightarrow> if w = 0 \<or> h = 0 then [] else '', '' @ decimal w @ ''x'' @ decimal h
      | _ \<Rightarrow> []) @ '')'' @
     (case tags file of
        None \<Rightarrow> []
      | Some ts \<Rightarrow> if ts = [] then [] else NL @ ''   Tags: '' @ join ts '', '') @
     NL @ ''   ID: '' @ tmpl (fileId file) @ NL @ ''   URL: '' @ tmpl (url file)"
    by (simp add: formatFileInfo_def Let_def truthy_num_def truthy_str_def tmpl_def
          decimal_nonempty split: option.splits)
  have tenth: "\<exists>q. kb_toFixed1 n = decimal (q div 10) @ ''.'' @ [digit_char (q mod 10)]
          \<and> 2048 * q \<le> 20 * n + 1024 \<and> 20 * n + 1024 < 2048 * (q + 1)" for n
  proof -
    let ?q = "(n * 20 + 1024) div 2048"
    have "kb_toFixed1 n = decimal (?q div 10) @ ''.'' @ [digit_char (?q mod 10)]"
      by (simp add: kb_toFixed1_def Let_def decimal_digit)
    moreover have "2048 * ?q \<le> 20 * n + 1024 \<and> 20 * n + 1024 < 2048 * (?q + 1)"
      by (simp add: mult.commute)
    ultimately show ?thesis by blast
  qed
  show "case fsize file of
        None \<Rightarrow> True
      | Some n \<Rightarrow>
          n < 1024 * 10 ^ 21 \<and>
          (\<exists>q. kb_toFixed1 n = decimal (q div 10) @ ''.'' @ [digit_char (q mod 10)]
             \<and> 2048 * q \<le> 20 * n + 1024 \<and> 20 * n + 1024 < 2048 * (q + 1))"
  proof (cases "fsize file")
    case None
    then show ?thesis by simp
  next
    case (Some n)
    with assms have "n < 1024 * 10 ^ 21"
      by (simp add: numbers_in_range_def)
    with Some tenth [of n] show ?thesis by simp
  qed
qed

theorem formatFileInfo_rendering_witness:
  "numbers_in_range example_file
   \<and> formatFileInfo example_file =
     ''a.png (image, 1.5 KB, 640x480)'' @ NL @ ''   Tags: x, y'' @ NL @ ''   ID: f1'' @ NL @
     ''   URL: https://ik.example/demo/photos/a.png''"
proof -
  have r: "numbers_in_range example_file"
    by (simp add: numbers_in_range_def example_file_def)
  have "decimal 640 = ''640''" and "decimal 480 = ''480''" and "kb_toFixed1 1536 = ''1.5''"
    by (simp_all add: decimal.simps digit_char_def kb_toFixed1_def)
  with formatFileInfo_rendering [OF r] r show ?thesis
    by (simp add: example_file_def tmpl_def)
qed

end
